theory Spec2Isabelle
  imports Complex_Main
begin

section \<open>JavaScript values used by the agent\<close>

text \<open>
  A JavaScript string is a \<open>string\<close>; a value of type \<open>string | undefined\<close> is a
  \<open>string option\<close> with \<open>None\<close> for \<open>undefined\<close>. The empty string and
  \<open>undefined\<close> are the falsy values of that type.
\<close>

definition truthy :: "string option \<Rightarrow> bool" where
  "truthy v = (case v of None \<Rightarrow> False | Some s \<Rightarrow> s \<noteq> [])"

text \<open>\<open>a || b\<close> on two values of type \<open>string | undefined\<close>.\<close>

definition js_or :: "string option \<Rightarrow> string option \<Rightarrow> string option" where
  "js_or a b = (if truthy a then a else b)"

text \<open>A value interpolated into a template literal: \<open>undefined\<close> prints as its name.\<close>

definition interpolate :: "string option \<Rightarrow> string" where
  "interpolate v = (case v of None \<Rightarrow> ''undefined'' | Some s \<Rightarrow> s)"

text \<open>
  \<open>String.prototype.split\<close> with a one-character separator: the segments between the
  occurrences of the separator, in order. The result always has at least one segment.
\<close>

fun split :: "char \<Rightarrow> string \<Rightarrow> string list" where
  "split sep [] = [[]]"
| "split sep (c # cs) =
     (if c = sep then [] # split sep cs
      else (case split sep cs of
              [] \<Rightarrow> [[c]]
            | seg # segs \<Rightarrow> (c # seg) # segs))"

text \<open>\<open>Array.prototype.join\<close> with a separator string.\<close>

fun join :: "string \<Rightarrow> string list \<Rightarrow> string" where
  "join sep [] = []"
| "join sep [s] = s"
| "join sep (s # t # ss) = s @ sep @ join sep (t # ss)"

section \<open>index.ts: options, runtime environment and start-up\<close>

definition defaultControllerDomain :: string where
  "defaultControllerDomain = ''backupfire.dev''"

definition defaultRegion :: string where
  "defaultRegion = ''us-central1''"

record BackupFireOptions =
  controllerDomain :: "string option"
  controllerToken :: string
  adminPassword :: string
  bucketsAllowlist :: "string list option"
  debug :: bool

text \<open>The \<open>backupfire\<close> key of the Functions environment configuration.\<close>

record BackupFireEnvConfig =
  domain :: "string option"
  token :: string
  password :: string
  allowlist :: "string option"
  debug_cfg :: "string option"

text \<open>
  \<open>IncompleteRuntimeEnvironment | RuntimeEnvironment\<close>: one object whose three fields
  may be \<open>undefined\<close>; \<open>isCompleteRuntimeEnv\<close> is the type guard that narrows it.
\<close>

record RuntimeEnvironment =
  region :: "string option"
  projectId :: "string option"
  functionName :: "string option"

text \<open>The four variables of \<open>process.env\<close> that \<open>getRuntimeEnv\<close> reads.\<close>

record process_env =
  GCP_PROJECT :: "string option"
  GCLOUD_PROJECT :: "string option"
  FUNCTION_NAME :: "string option"
  FUNCTION_TARGET :: "string option"

text \<open>
  The options derived from the environment configuration (lines 96 to 103).
  \<open>(allowlist && allowlist.split(',')) || undefined\<close>: a falsy allowlist gives
  \<open>undefined\<close>; otherwise the array of segments, which is an object and so truthy.
\<close>

definition deriveAllowlist :: "string option \<Rightarrow> string list option" where
  "deriveAllowlist a =
     (case a of
        None \<Rightarrow> None
      | Some s \<Rightarrow> if s = [] then None else Some (split CHR '','' s))"

definition deriveOptions :: "BackupFireEnvConfig \<Rightarrow> BackupFireOptions" where
  "deriveOptions envConfig =
     \<lparr> controllerDomain = domain envConfig,
       controllerToken = token envConfig,
       adminPassword = password envConfig,
       bucketsAllowlist = deriveAllowlist (allowlist envConfig),
       debug = (debug_cfg envConfig = Some ''true'') \<rparr>"

definition getRuntimeEnv :: "process_env \<Rightarrow> RuntimeEnvironment" where
  "getRuntimeEnv penv =
     \<lparr> region = Some defaultRegion,
       projectId = js_or (GCP_PROJECT penv) (GCLOUD_PROJECT penv),
       functionName = js_or (FUNCTION_NAME penv) (FUNCTION_TARGET penv) \<rparr>"

definition isCompleteRuntimeEnv :: "RuntimeEnvironment \<Rightarrow> bool" where
  "isCompleteRuntimeEnv runtimeEnv =
     (truthy (functionName runtimeEnv) \<and> truthy (projectId runtimeEnv)
      \<and> truthy (region runtimeEnv))"

definition agentURL :: "RuntimeEnvironment \<Rightarrow> string" where
  "agentURL runtimeEnv =
     ''https://'' @ interpolate (region runtimeEnv) @ ''-''
       @ interpolate (projectId runtimeEnv) @ ''.cloudfunctions.net/''
       @ interpolate (functionName runtimeEnv)"

subsection \<open>The Express application\<close>

datatype http_method = GET | POST | PUT

datatype middleware = Jwt string | BodyParserJson | Cors

datatype endpoint =
    BackupFirestore "string list option"
  | CheckFirestoreBackupStatus
  | BackupUsers "string option" "string list option"
  | StorageList "string list option"
  | CreateStorage "string list option"
  | UpdateStorage "string list option"

record express_app =
  uses :: "middleware list"
  routes :: "(http_method \<times> string \<times> endpoint) list"

definition createApp :: "RuntimeEnvironment \<Rightarrow> BackupFireOptions \<Rightarrow> express_app" where
  "createApp runtimeEnv options =
     (let globalOptions = bucketsAllowlist options in
      \<lparr> uses = [Jwt (controllerToken options), BodyParserJson, Cors],
        routes =
          [(POST, ''/firestore'', BackupFirestore globalOptions),
           (GET, ''/firestore/status'', CheckFirestoreBackupStatus),
           (POST, ''/users'', BackupUsers (projectId runtimeEnv) globalOptions),
           (GET, ''/storage'', StorageList globalOptions),
           (POST, ''/storage'', CreateStorage globalOptions),
           (PUT, ''/storage/:storageId'', UpdateStorage globalOptions)] \<rparr>)"

text \<open>
  What \<open>https.onRequest\<close> is given: the dummy callback \<open>(_req, resp) => resp.end()\<close>
  or the Express application.
\<close>

datatype request_handler = EndResponse | App express_app

record https_function =
  fn_region :: string
  onRequest :: request_handler

definition dummyHandler :: https_function where
  "dummyHandler = \<lparr> fn_region = defaultRegion, onRequest = EndResponse \<rparr>"

subsection \<open>The initialization ping\<close>

text \<open>
  \<open>querystring.escape\<close>: every byte of the string other than the unreserved
  characters \<open>A-Z a-z 0-9 - _ . ! ~ * ' ( )\<close> becomes \<open>%XX\<close> with upper-case
  hexadecimal digits (strings are byte sequences here, the UTF-8 form that
  the escape works on).
\<close>

definition unreserved :: "char \<Rightarrow> bool" where
  "unreserved c =
     (c \<in> set ''ABCDEFGHIJKLMNOPQRSTUVWXYZabcdefghijklmnopqrstuvwxyz0123456789-_.!~*()''
      \<or> c = CHR 0x27)"

definition hexDigit :: "nat \<Rightarrow> char" where
  "hexDigit n = ''0123456789ABCDEF'' ! (n mod 16)"

definition escapeChar :: "char \<Rightarrow> string" where
  "escapeChar c =
     (if unreserved c then [c]
      else [CHR ''%'', hexDigit (of_char c div 16), hexDigit (of_char c mod 16)])"

definition qsEscape :: "string \<Rightarrow> string" where
  "qsEscape s = concat (map escapeChar s)"

text \<open>\<open>querystring.stringify\<close> of an object whose values are strings.\<close>

definition stringify :: "(string \<times> string) list \<Rightarrow> string" where
  "stringify query = join ''&'' (map (\<lambda>(k, v). qsEscape k @ ''='' @ qsEscape v) query)"

text \<open>
  \<open>url.format\<close> of an object with the four fields \<open>hostname\<close>, \<open>protocol\<close>,
  \<open>pathname\<close> and \<open>query\<close>: the protocol gets its colon, a host name with a colon
  is put in brackets unless it is in brackets already (\<open>isIpv6Hostname\<close>: it starts
  with \<open>[\<close> and ends with \<open>]\<close>), the protocols of \<open>slashedProtocol\<close> get
  \<open>//\<close>, \<open>#\<close> and \<open>?\<close> are escaped in the path and \<open>#\<close> in the search part.
\<close>

record url_object =
  hostname :: string
  protocol :: string
  pathname :: string
  query :: "(string \<times> string) list"

definition slashedProtocol :: "string list" where
  "slashedProtocol =
     [''http'', ''http:'', ''https'', ''https:'', ''ftp'', ''ftp:'', ''gopher'', ''gopher:'',
      ''file'', ''file:'', ''ws'', ''ws:'', ''wss'', ''wss:'']"

definition escapePathname :: "string \<Rightarrow> string" where
  "escapePathname p =
     concat (map (\<lambda>c. if c = CHR ''#'' then ''%23'' else if c = CHR ''?'' then ''%3F'' else [c]) p)"

definition escapeHash :: "string \<Rightarrow> string" where
  "escapeHash s = concat (map (\<lambda>c. if c = CHR ''#'' then ''%23'' else [c]) s)"

definition isIpv6Hostname :: "string \<Rightarrow> bool" where
  "isIpv6Hostname h = (h \<noteq> [] \<and> hd h = CHR ''['' \<and> last h = CHR '']'')"

definition format :: "url_object \<Rightarrow> string" where
  "format u =
     (let host0 = (if hostname u = [] then []
                   else if CHR '':'' \<in> set (hostname u) \<and> \<not> isIpv6Hostname (hostname u)
                   then ''['' @ hostname u @ '']''
                   else hostname u);
          q = stringify (query u);
          search0 = (if q = [] then [] else ''?'' @ q);
          proto = (if protocol u \<noteq> [] \<and> last (protocol u) \<noteq> CHR '':''
                   then protocol u @ '':'' else protocol u);
          path0 = escapePathname (pathname u);
          slashed = (proto \<in> set slashedProtocol \<and> host0 \<noteq> []);
          path1 = (if slashed \<and> path0 \<noteq> [] \<and> hd path0 \<noteq> CHR ''/'' then ''/'' @ path0 else path0);
          host1 = (if slashed then ''//'' @ host0
                   else if proto \<in> set slashedProtocol \<and> take 4 proto = ''file'' then ''//''
                   else host0)
      in proto @ host1 @ path1 @ escapeHash search0)"

text \<open>
  The URL that \<open>sendInitializationPing\<close> builds. The function is called with a
  complete runtime environment, whose \<open>projectId\<close> is a string.
\<close>

definition pingURL :: "BackupFireOptions \<Rightarrow> RuntimeEnvironment \<Rightarrow> string" where
  "pingURL options runtimeEnv =
     format
       \<lparr> hostname = (case js_or (controllerDomain options) (Some defaultControllerDomain) of
                       None \<Rightarrow> [] | Some h \<Rightarrow> h),
         protocol = ''https'',
         pathname = ''/ping'',
         query = [(''token'', controllerToken options),
                  (''projectId'', (case projectId runtimeEnv of None \<Rightarrow> [] | Some p \<Rightarrow> p)),
                  (''agentURL'', agentURL runtimeEnv)] \<rparr>"

text \<open>\<open>sendInitializationPing\<close> fetches that URL once: the list of the URLs fetched.\<close>

definition sendInitializationPing :: "BackupFireOptions \<Rightarrow> RuntimeEnvironment \<Rightarrow> string list" where
  "sendInitializationPing options runtimeEnv = [pingURL options runtimeEnv]"

subsection \<open>Start-up\<close>

datatype console =
    WarnNoConfig
  | LogNotBackupfire "string option"
  | WarnIncomplete RuntimeEnvironment
  | WarnRunningDummy
  | LogInitializing BackupFireOptions
  | LogRuntimeEnv RuntimeEnvironment

text \<open>
  The result of \<open>backupFire\<close>: the function it returns, the URLs it has fetched and
  what it has written to the console.
\<close>

record startup =
  exported :: https_function
  fetched :: "string list"
  printed :: "console list"

definition backupFire :: "BackupFireEnvConfig option \<Rightarrow> process_env \<Rightarrow> startup" where
  "backupFire config penv =
     (case config of
        None \<Rightarrow> \<lparr> exported = dummyHandler, fetched = [], printed = [WarnNoConfig] \<rparr>
      | Some envConfig \<Rightarrow>
          let options = deriveOptions envConfig;
              runtimeEnv = getRuntimeEnv penv
          in if functionName runtimeEnv \<noteq> Some ''backupfire'' then
               \<lparr> exported = dummyHandler, fetched = [],
                 printed = (if debug options then [LogNotBackupfire (functionName runtimeEnv)] else []) \<rparr>
             else if \<not> isCompleteRuntimeEnv runtimeEnv then
               \<lparr> exported = dummyHandler, fetched = [],
                 printed = [WarnIncomplete runtimeEnv, WarnRunningDummy] \<rparr>
             else
               \<lparr> exported = \<lparr> fn_region = defaultRegion,
                               onRequest = App (createApp runtimeEnv options) \<rparr>,
                 fetched = sendInitializationPing options runtimeEnv,
                 printed = (if debug options
                            then [LogInitializing options, LogRuntimeEnv runtimeEnv] else []) \<rparr>)"

section \<open>users backup: temporary path, export, verification, upload\<close>

subsection \<open>Node's \<open>path\<close> module (POSIX)\<close>

text \<open>
  \<open>parse(path).base\<close>: the trailing slashes are dropped, and the base is what follows
  the last remaining slash (the empty string when nothing remains).
\<close>

definition base :: "string \<Rightarrow> string" where
  "base p = rev (takeWhile (\<lambda>c. c \<noteq> CHR ''/'') (dropWhile (\<lambda>c. c = CHR ''/'') (rev p)))"

text \<open>
  \<open>normalizeString\<close>, segment by segment: empty segments and \<open>.\<close> are skipped,
  \<open>..\<close> removes the segment before it, or is kept when there is none to remove and
  the path may climb above its root.
\<close>

fun normalizeSegments :: "bool \<Rightarrow> string list \<Rightarrow> string list \<Rightarrow> string list" where
  "normalizeSegments allowAboveRoot res [] = res"
| "normalizeSegments allowAboveRoot res (s # ss) =
     (if s = [] \<or> s = ''.'' then normalizeSegments allowAboveRoot res ss
      else if s = ''..'' then
        (if res \<noteq> [] \<and> last res \<noteq> ''..'' then normalizeSegments allowAboveRoot (butlast res) ss
         else if allowAboveRoot then normalizeSegments allowAboveRoot (res @ [''..'']) ss
         else normalizeSegments allowAboveRoot res ss)
      else normalizeSegments allowAboveRoot (res @ [s]) ss)"

text \<open>
  The loop of \<open>resolve\<close> runs over its arguments from the right, then the working
  directory, skips empty ones and stops after the first absolute one. The argument is
  the list in that order; the result is the list of the paths taken, left to right.
\<close>

fun takeUntilAbsolute :: "string list \<Rightarrow> string list" where
  "takeUntilAbsolute [] = []"
| "takeUntilAbsolute (p # ps) =
     (if p = [] then takeUntilAbsolute ps
      else if hd p = CHR ''/'' then [p]
      else takeUntilAbsolute ps @ [p])"

definition resolve :: "string \<Rightarrow> string list \<Rightarrow> string" where
  "resolve workdir args =
     (let parts = takeUntilAbsolute (rev (workdir # args));
          resolvedAbsolute = (parts \<noteq> [] \<and> hd (hd parts) = CHR ''/'');
          resolvedPath = concat (map (\<lambda>p. p @ ''/'') parts);
          res = join ''/'' (normalizeSegments (\<not> resolvedAbsolute) [] (split CHR ''/'' resolvedPath))
      in if resolvedAbsolute then ''/'' @ res
         else if res = [] then ''.'' else res)"

subsection \<open>The platform and the local file system\<close>

text \<open>
  What \<open>JSON.parse\<close> returns. A number is a real; the only number the agent
  computes is the length of an array or of a string.
\<close>

datatype json =
    JNull
  | JBool bool
  | JNum real
  | JStr string
  | JArr "json list"
  | JObj "(string \<times> json) list"

text \<open>
  The services the agent calls and does not implement: the temporary directory and the
  working directory of the process, \<open>admin.storage().bucket\<close> (which may throw),
  \<open>tools.auth.export\<close> (which may write files and may reject), \<open>JSON.parse\<close>
  (\<open>None\<close> when it throws a syntax error) and the bucket's \<open>upload\<close> of a file's
  content to a destination (rejecting, or resolving with the \<open>metadata.size\<close> of
  the stored file).
\<close>

record platform =
  tmpdir :: string
  cwd :: string
  bucket :: "string \<Rightarrow> string + string"
  auth_export :: "string \<Rightarrow> string \<Rightarrow> (string \<rightharpoonup> string) \<Rightarrow> string option \<times> (string \<rightharpoonup> string)"
  JSON_parse :: "string \<Rightarrow> json option"
  upload :: "string \<Rightarrow> string \<Rightarrow> string \<Rightarrow> string + string"

datatype call =
    Export string string
  | ReadFile string
  | Upload string string string
  | Unlink string

text \<open>The local files and the calls made so far, oldest first.\<close>

record world =
  files :: "string \<rightharpoonup> string"
  calls :: "call list"

datatype error =
    BucketError string
  | ExportError string
  | UploadError string
  | ENOENT string

datatype UsersStatusResponse =
    Completed json string
  | Failed string

record UsersBackupRequestOptions =
  storageId :: string
  path :: string

definition called :: "call \<Rightarrow> world \<Rightarrow> world" where
  "called c w = w\<lparr>calls := calls w @ [c]\<rparr>"

text \<open>\<open>fs.unlink\<close>: removes the file, and rejects when there is none.\<close>

definition unlink :: "string \<Rightarrow> world \<Rightarrow> (error + unit) \<times> world" where
  "unlink p w =
     (case files w p of
        None \<Rightarrow> (Inl (ENOENT p), called (Unlink p) w)
      | Some _ \<Rightarrow> (Inr (), called (Unlink p) (w\<lparr>files := (files w)(p := None)\<rparr>)))"

subsection \<open>users.ts\<close>

definition tmpPath :: "platform \<Rightarrow> string \<Rightarrow> string" where
  "tmpPath plat p = resolve (cwd plat) [tmpdir plat, base p]"

text \<open>
  \<open>({ users }) => users.length\<close> on a parsed value. Destructuring \<open>null\<close> throws;
  only an object can have a \<open>users\<close> property. Reading \<open>length\<close> of \<open>undefined\<close>
  or \<open>null\<close> throws; an array and a string have a length, an object has the one
  stored under the key \<open>length\<close>, if any, and a number or a boolean has none.
  The length of a string is the number of its characters (its UTF-16 code units in
  JavaScript, which for ASCII text are the characters of the \<open>string\<close>).
  \<open>Inl ()\<close> is the thrown TypeError, \<open>Inr None\<close> the value \<open>undefined\<close>.
\<close>

definition usersOf :: "json \<Rightarrow> unit + json option" where
  "usersOf v =
     (case v of
        JNull \<Rightarrow> Inl ()
      | JObj kvs \<Rightarrow> Inr (map_of kvs ''users'')
      | _ \<Rightarrow> Inr None)"

definition lengthOf :: "json option \<Rightarrow> unit + json option" where
  "lengthOf users =
     (case users of
        None \<Rightarrow> Inl ()
      | Some JNull \<Rightarrow> Inl ()
      | Some (JArr xs) \<Rightarrow> Inr (Some (JNum (real (length xs))))
      | Some (JStr s) \<Rightarrow> Inr (Some (JNum (real (length s))))
      | Some (JObj kvs) \<Rightarrow> Inr (map_of kvs ''length'')
      | Some _ \<Rightarrow> Inr None)"

text \<open>
  Lines 49 to 53: read the file, parse it, take \<open>users.length\<close>; whatever is thrown or
  rejected on the way is caught and replaced by \<open>undefined\<close>.
\<close>

definition usersCount :: "platform \<Rightarrow> (string \<rightharpoonup> string) \<Rightarrow> string \<Rightarrow> json option" where
  "usersCount plat fs p =
     (case fs p of
        None \<Rightarrow> None
      | Some text \<Rightarrow>
          (case JSON_parse plat text of
             None \<Rightarrow> None
           | Some v \<Rightarrow>
               (case usersOf v of
                  Inl _ \<Rightarrow> None
                | Inr users \<Rightarrow> (case lengthOf users of Inl _ \<Rightarrow> None | Inr n \<Rightarrow> n))))"

definition backupUsers ::
  "platform \<Rightarrow> string \<Rightarrow> UsersBackupRequestOptions \<Rightarrow> world
     \<Rightarrow> (error + UsersStatusResponse) \<times> world" where
  "backupUsers plat project options w =
     (case bucket plat (storageId options) of
        Inl e \<Rightarrow> (Inl (BucketError e), w)
      | Inr b \<Rightarrow>
          let p = tmpPath plat (path options);
              w1 = called (Export p project) w
          in (case auth_export plat p project (files w1) of
                (Some e, fs) \<Rightarrow> (Inl (ExportError e), w1\<lparr>files := fs\<rparr>)
              | (None, fs) \<Rightarrow>
                  let w2 = called (ReadFile p) (w1\<lparr>files := fs\<rparr>)
                  in (case usersCount plat (files w2) p of
                        None \<Rightarrow>
                          (case unlink p w2 of
                             (Inl e, w3) \<Rightarrow> (Inl e, w3)
                           | (Inr _, w3) \<Rightarrow> (Inr (Failed ''Failed to parse the backup file''), w3))
                      | Some n \<Rightarrow>
                          let w3 = called (Upload b p (path options)) w2
                          in (case files w3 p of
                                None \<Rightarrow> (Inl (UploadError (''ENOENT: '' @ p)), w3)
                              | Some content \<Rightarrow>
                                  (case upload plat b (path options) content of
                                     Inl e \<Rightarrow> (Inl (UploadError e), w3)
                                   | Inr size' \<Rightarrow>
                                       (case unlink p w3 of
                                          (Inl e, w4) \<Rightarrow> (Inl e, w4)
                                        | (Inr _, w4) \<Rightarrow> (Inr (Completed n size'), w4)))))))"

text \<open>
  The callback that \<open>backupUsersMiddleware\<close> gives to \<open>asyncMiddleware\<close>: either
  \<open>operationResponse\<close> is called with the state that \<open>backupUsers\<close> resolved
  with, or the callback rejects with the error of \<open>backupUsers\<close>. The allow-list is
  a parameter of the middleware and occurs nowhere in its body.
\<close>

datatype outcome = OperationResponse UsersStatusResponse | Rejection error

definition backupUsersMiddleware ::
  "platform \<Rightarrow> string list option \<Rightarrow> string \<Rightarrow> UsersBackupRequestOptions \<Rightarrow> world
     \<Rightarrow> outcome \<times> world" where
  "backupUsersMiddleware plat allowed project body w =
     (case backupUsers plat project body w of
        (Inl e, w') \<Rightarrow> (Rejection e, w')
      | (Inr state, w') \<Rightarrow> (OperationResponse state, w'))"

subsection \<open>Parsed values and a sample platform for the properties below\<close>

text \<open>
  The parsed values on which \<open>users.length\<close> throws or is \<open>undefined\<close>, read off
  \<open>usersOf\<close> and \<open>lengthOf\<close>: the value is not an object, or its \<open>users\<close> property
  is missing, \<open>null\<close>, a boolean, a number, or an object with no \<open>length\<close> key.
\<close>

fun noUsersLength :: "json \<Rightarrow> bool" where
  "noUsersLength (JObj kvs) =
     (case map_of kvs ''users'' of
        None \<Rightarrow> True
      | Some JNull \<Rightarrow> True
      | Some (JBool _) \<Rightarrow> True
      | Some (JNum _) \<Rightarrow> True
      | Some (JStr _) \<Rightarrow> False
      | Some (JArr _) \<Rightarrow> False
      | Some (JObj m) \<Rightarrow> map_of m ''length'' = None)"
| "noUsersLength _ = True"

text \<open>
  The specification's reading of a usable artifact: the parsed value is an object whose
  \<open>users\<close> property is an array.
\<close>

fun hasUsersArray :: "json \<Rightarrow> bool" where
  "hasUsersArray (JObj kvs) = (case map_of kvs ''users'' of Some (JArr _) \<Rightarrow> True | _ \<Rightarrow> False)"
| "hasUsersArray _ = False"

text \<open>
  A platform with \<open>/tmp\<close> as temporary directory, on which every bucket with a name
  can be opened, the export writes the given text to the path it is given,
  \<open>JSON.parse\<close> of that text gives the given value, and every upload has the given
  outcome.
\<close>

definition samplePlatform :: "string \<Rightarrow> json option \<Rightarrow> string + string \<Rightarrow> platform" where
  "samplePlatform text parsed uploaded =
     \<lparr> tmpdir = ''/tmp'', cwd = ''/srv'',
       bucket = (\<lambda>name. if name = [] then Inl ''Bucket name not specified'' else Inr name),
       auth_export = (\<lambda>p project fs. (None, fs(p \<mapsto> text))),
       JSON_parse = (\<lambda>t. if t = text then parsed else None),
       upload = (\<lambda>b destination content. uploaded) \<rparr>"

text \<open>The same platform, except that the export rejects without writing anything.\<close>

definition failingExport :: "string \<Rightarrow> platform" where
  "failingExport reason =
     (samplePlatform [] None (Inl []))\<lparr> auth_export := (\<lambda>p project fs. (Some reason, fs)) \<rparr>"

definition emptyWorld :: world where
  "emptyWorld = \<lparr> files = Map.empty, calls = [] \<rparr>"

definition sampleConfig :: "string option \<Rightarrow> BackupFireEnvConfig" where
  "sampleConfig a =
     \<lparr> domain = None, token = ''secret token'', password = ''admin'', allowlist = a,
       debug_cfg = None \<rparr>"

text \<open>
  A request for the destination \<open>users/2024.json\<close> in a given bucket, an export of
  two user records with its parsed value, and the platform on which that export is
  written and the upload reports the size 1024.
\<close>

definition sampleRequest :: "string \<Rightarrow> UsersBackupRequestOptions" where
  "sampleRequest b = \<lparr> storageId = b, path = ''users/2024.json'' \<rparr>"

definition twoUsersText :: string where
  "twoUsersText = ''{\"users\":[{},{}]}''"

definition twoUsers :: json where
  "twoUsers = JObj [(''users'', JArr [JObj [], JObj []])]"

definition healthyPlatform :: platform where
  "healthyPlatform = samplePlatform twoUsersText (Some twoUsers) (Inr ''1024'')"

text \<open>
  A process environment of the Node.js 10 runtime: the project in \<open>GCLOUD_PROJECT\<close>,
  the function in \<open>FUNCTION_TARGET\<close>.
\<close>

definition sampleEnv :: "string option \<Rightarrow> string option \<Rightarrow> process_env" where
  "sampleEnv project name =
     \<lparr> GCP_PROJECT = None, GCLOUD_PROJECT = project, FUNCTION_NAME = None, FUNCTION_TARGET = name \<rparr>"

section \<open>Properties of the start-up\<close>

subsection \<open>Splitting and joining\<close>

lemma split_not_Nil: "split sep s \<noteq> []"
  by (induction s) (auto split: list.splits)

lemma join_split: "join [sep] (split sep s) = s"
proof (induction s)
  case Nil
  show ?case by simp
next
  case (Cons c s)
  obtain seg segs where sp: "split sep s = seg # segs"
    using split_not_Nil [of sep s] by (cases "split sep s") auto
  show ?case
  proof (cases "c = sep")
    case True
    then show ?thesis using Cons sp by simp
  next
    case False
    then show ?thesis using Cons sp by (cases segs) auto
  qed
qed

lemma split_segments_plain: "seg \<in> set (split sep s) \<Longrightarrow> sep \<notin> set seg"
proof (induction s arbitrary: seg)
  case Nil
  then show ?case by simp
next
  case (Cons c s)
  then show ?case
    by (cases "split sep s") (auto split: if_splits)
qed

subsection \<open>The query string has no hash sign\<close>

lemma hexDigit_not_hash: "hexDigit n \<noteq> CHR ''#''"
proof -
  have "n mod 16 < length ''0123456789ABCDEF''" by simp
  then have "hexDigit n \<in> set ''0123456789ABCDEF''"
    unfolding hexDigit_def by (rule nth_mem)
  then show ?thesis by auto
qed

lemma escapeChar_no_hash: "CHR ''#'' \<notin> set (escapeChar c)"
  using hexDigit_not_hash [of "of_char c div 16"] hexDigit_not_hash [of "of_char c mod 16"]
  by (auto simp: escapeChar_def unreserved_def)

lemma qsEscape_no_hash: "CHR ''#'' \<notin> set (qsEscape s)"
  using escapeChar_no_hash by (auto simp: qsEscape_def)

lemma escapeHash_id: "CHR ''#'' \<notin> set s \<Longrightarrow> escapeHash s = s"
  unfolding escapeHash_def by (induction s) auto

lemma qsEscape_keys:
  "qsEscape ''token'' = ''token''" "qsEscape ''projectId'' = ''projectId''"
  "qsEscape ''agentURL'' = ''agentURL''"
  by (simp_all add: qsEscape_def escapeChar_def unreserved_def)

lemma pingURL_eq:
  assumes "projectId runtimeEnv = Some pid"
  shows "pingURL options runtimeEnv =
           ''https://'' @ (let host = (case controllerDomain options of None \<Rightarrow> defaultControllerDomain | Some d \<Rightarrow> if d = [] then defaultControllerDomain else d) in if CHR '':'' \<in> set host \<and> \<not> isIpv6Hostname host then ''['' @ host @ '']'' else host)
             @ ''/ping?token=''
             @ qsEscape (controllerToken options) @ ''&projectId='' @ qsEscape pid
             @ ''&agentURL='' @ qsEscape (agentURL runtimeEnv)"
proof -
  define q where "q = ''token='' @ qsEscape (controllerToken options) @ ''&projectId=''
      @ qsEscape pid @ ''&agentURL='' @ qsEscape (agentURL runtimeEnv)"
  have q: "stringify [(''token'', controllerToken options), (''projectId'', pid),
             (''agentURL'', agentURL runtimeEnv)] = q"
    by (simp add: stringify_def qsEscape_keys q_def)
  have "CHR ''#'' \<notin> set (''?'' @ q)"
    using qsEscape_no_hash by (simp add: q_def)
  then have h: "escapeHash (''?'' @ q) = ''?'' @ q" by (rule escapeHash_id)
  have qne: "q \<noteq> []" by (simp add: q_def)
  show ?thesis
    unfolding pingURL_def format_def
    using assms h qne
    by (simp add: q Let_def js_or_def truthy_def defaultControllerDomain_def 
        slashedProtocol_def escapePathname_def q_def split: option.splits)
qed

subsection \<open>The derived allow-list\<close>

text \<open>
  C10. Whatever the environment configuration, the derived \<open>bucketsAllowlist\<close> is
  \<open>undefined\<close> or a non-empty list. An absent or empty allow-list string gives
  \<open>undefined\<close>; a non-empty string gives its comma-separated segments (joining them
  with commas gives the string back, and no segment holds a comma); the empty list is
  never derived.
\<close>

theorem allowlist_undefined_or_nonempty:
  "(allowlist envConfig = None \<or> allowlist envConfig = Some [] \<longrightarrow>
      bucketsAllowlist (deriveOptions envConfig) = None)
   \<and> (\<forall>s. allowlist envConfig = Some s \<and> s \<noteq> [] \<longrightarrow>
          bucketsAllowlist (deriveOptions envConfig) = Some (split CHR '','' s)
          \<and> join '','' (split CHR '','' s) = s
          \<and> (\<forall>seg \<in> set (split CHR '','' s). CHR '','' \<notin> set seg))
   \<and> bucketsAllowlist (deriveOptions envConfig) \<noteq> Some []"
  using split_not_Nil [of "CHR '',''"] join_split [of "CHR '',''"] split_segments_plain [of _ "CHR '',''"]
  by (auto simp: deriveOptions_def deriveAllowlist_def split: option.splits)

text \<open>
  The property at four configurations: no allow-list, the empty one, two buckets, and
  a single comma (two empty segments, still a non-empty list).
\<close>

theorem allowlist_undefined_or_nonempty_witness:
  "bucketsAllowlist (deriveOptions (sampleConfig None)) = None
   \<and> bucketsAllowlist (deriveOptions (sampleConfig (Some []))) = None
   \<and> bucketsAllowlist (deriveOptions (sampleConfig (Some ''b1,b2''))) = Some [''b1'', ''b2'']
   \<and> bucketsAllowlist (deriveOptions (sampleConfig (Some '',''))) = Some [[], []]"
  using allowlist_undefined_or_nonempty [of "sampleConfig None"]
    allowlist_undefined_or_nonempty [of "sampleConfig (Some [])"]
    allowlist_undefined_or_nonempty [of "sampleConfig (Some ''b1,b2'')"]
    allowlist_undefined_or_nonempty [of "sampleConfig (Some '','')"]
  by (simp add: sampleConfig_def)

subsection \<open>The function name\<close>

text \<open>
  C9. When the resolved function name is not exactly \<open>backupfire\<close>, \<open>backupFire\<close>
  returns the dummy handler and sends no ping, whatever the configuration and the rest
  of the runtime environment are; so whenever the Express application is mounted, the
  function name is \<open>backupfire\<close>.
\<close>

theorem agent_only_as_backupfire:
  "(functionName (getRuntimeEnv penv) \<noteq> Some ''backupfire'' \<longrightarrow>
      exported (backupFire config penv) = dummyHandler \<and> fetched (backupFire config penv) = [])
   \<and> (\<forall>app. onRequest (exported (backupFire config penv)) = App app \<longrightarrow>
          functionName (getRuntimeEnv penv) = Some ''backupfire'')"
  by (auto simp: backupFire_def dummyHandler_def Let_def split: option.splits if_splits)

text \<open>
  With the configuration present and a complete runtime environment, the name
  \<open>backupFire\<close> (capital F) still gets the dummy handler.
\<close>

theorem agent_only_as_backupfire_witness:
  "isCompleteRuntimeEnv (getRuntimeEnv (sampleEnv (Some ''my-project'') (Some ''backupFire'')))
   \<and> exported (backupFire (Some (sampleConfig None)) (sampleEnv (Some ''my-project'') (Some ''backupFire'')))
       = dummyHandler
   \<and> fetched (backupFire (Some (sampleConfig None)) (sampleEnv (Some ''my-project'') (Some ''backupFire''))) = []
   \<and> functionName (getRuntimeEnv (sampleEnv (Some ''my-project'') (Some ''backupfire''))) = Some ''backupfire''"
  using agent_only_as_backupfire [of "sampleEnv (Some ''my-project'') (Some ''backupFire'')" "Some (sampleConfig None)"]
    agent_only_as_backupfire [of "sampleEnv (Some ''my-project'') (Some ''backupfire'')" "Some (sampleConfig None)"]
  by (simp add: sampleEnv_def getRuntimeEnv_def js_or_def truthy_def isCompleteRuntimeEnv_def defaultRegion_def)

subsection \<open>An incomplete runtime environment\<close>

text \<open>
  C7. When the region, the project id or the function name is \<open>undefined\<close> (or the
  environment is incomplete in the sense of \<open>isCompleteRuntimeEnv\<close>, which also
  counts an empty string as missing), \<open>backupFire\<close> returns the dummy handler, whose
  callback only ends the response; no application is mounted and no ping is sent.
\<close>

theorem incomplete_environment_dummy:
  assumes "region (getRuntimeEnv penv) = None \<or> projectId (getRuntimeEnv penv) = None
           \<or> functionName (getRuntimeEnv penv) = None
           \<or> \<not> isCompleteRuntimeEnv (getRuntimeEnv penv)"
  shows "exported (backupFire config penv) = dummyHandler
         \<and> onRequest (exported (backupFire config penv)) = EndResponse
         \<and> fetched (backupFire config penv) = []"
proof -
  have "\<not> isCompleteRuntimeEnv (getRuntimeEnv penv)"
    using assms by (auto simp: isCompleteRuntimeEnv_def truthy_def)
  then show ?thesis
    by (simp add: backupFire_def dummyHandler_def Let_def split: option.splits)
qed

text \<open>The property at an environment with no project id.\<close>

theorem incomplete_environment_dummy_witness:
  "projectId (getRuntimeEnv (sampleEnv None (Some ''backupfire''))) = None
   \<and> exported (backupFire (Some (sampleConfig None)) (sampleEnv None (Some ''backupfire''))) = dummyHandler
   \<and> onRequest (exported (backupFire (Some (sampleConfig None)) (sampleEnv None (Some ''backupfire'')))) = EndResponse
   \<and> fetched (backupFire (Some (sampleConfig None)) (sampleEnv None (Some ''backupfire''))) = []"
proof -
  have h: "projectId (getRuntimeEnv (sampleEnv None (Some ''backupfire''))) = None"
    by (simp add: sampleEnv_def getRuntimeEnv_def js_or_def truthy_def)
  then have "region (getRuntimeEnv (sampleEnv None (Some ''backupfire''))) = None
      \<or> projectId (getRuntimeEnv (sampleEnv None (Some ''backupfire''))) = None
      \<or> functionName (getRuntimeEnv (sampleEnv None (Some ''backupfire''))) = None
      \<or> \<not> isCompleteRuntimeEnv (getRuntimeEnv (sampleEnv None (Some ''backupfire'')))"
    by simp
  from incomplete_environment_dummy [OF this, of "Some (sampleConfig None)"] h
  show ?thesis by (simp add: dummyHandler_def)
qed

subsection \<open>The initialization ping\<close>

lemma sample_startup:
  "getRuntimeEnv (sampleEnv (Some ''my-project'') (Some ''backupfire'')) =
     \<lparr>region = Some ''us-central1'', projectId = Some ''my-project'',
       functionName = Some ''backupfire''\<rparr>"
  by (simp add: sampleEnv_def getRuntimeEnv_def js_or_def truthy_def defaultRegion_def)

lemma sample_escapes:
  "qsEscape ''secret token'' = ''secret%20token''"
  "qsEscape ''my-project'' = ''my-project''"
  "qsEscape ''https://us-central1-my-project.cloudfunctions.net/backupfire''
     = ''https%3A%2F%2Fus-central1-my-project.cloudfunctions.net%2Fbackupfire''"
  by (simp_all add: qsEscape_def escapeChar_def unreserved_def hexDigit_def)

text \<open>
  C8, as stated: the ping goes to the \<open>/ping\<close> path on the configured controller
  domain. This fails for a domain that holds a colon, such as a host with a port:
  with the domain \<open>localhost:8080\<close> the URL fetched has the host
  \<open>[localhost:8080]\<close>, in brackets, and is not the URL on the configured domain.
\<close>

theorem ping_url_host_port_counterexample:
  "fetched (backupFire (Some ((sampleConfig None)\<lparr>domain := Some ''localhost:8080''\<rparr>))
              (sampleEnv (Some ''my-project'') (Some ''backupfire'')))
     = [''https://[localhost:8080]/ping?token=secret%20token&projectId=my-project&agentURL=https%3A%2F%2Fus-central1-my-project.cloudfunctions.net%2Fbackupfire'']
   \<and> fetched (backupFire (Some ((sampleConfig None)\<lparr>domain := Some ''localhost:8080''\<rparr>))
              (sampleEnv (Some ''my-project'') (Some ''backupfire'')))
     \<noteq> [''https://localhost:8080/ping?token=secret%20token&projectId=my-project&agentURL=https%3A%2F%2Fus-central1-my-project.cloudfunctions.net%2Fbackupfire'']"
proof -
  let ?r = "\<lparr>region = Some ''us-central1'', projectId = Some ''my-project'',
              functionName = Some ''backupfire''\<rparr>"
  have u: "agentURL ?r = ''https://us-central1-my-project.cloudfunctions.net/backupfire''"
    by (simp add: agentURL_def interpolate_def)
  have p: "pingURL (deriveOptions ((sampleConfig None)\<lparr>domain := Some ''localhost:8080''\<rparr>)) ?r
      = ''https://[localhost:8080]/ping?token=secret%20token&projectId=my-project&agentURL=https%3A%2F%2Fus-central1-my-project.cloudfunctions.net%2Fbackupfire''"
    using pingURL_eq [of ?r "''my-project''"
        "deriveOptions ((sampleConfig None)\<lparr>domain := Some ''localhost:8080''\<rparr>)"]
    by (simp add: u sample_escapes deriveOptions_def sampleConfig_def isIpv6Hostname_def)
  have "fetched (backupFire (Some ((sampleConfig None)\<lparr>domain := Some ''localhost:8080''\<rparr>))
              (sampleEnv (Some ''my-project'') (Some ''backupfire'')))
      = [pingURL (deriveOptions ((sampleConfig None)\<lparr>domain := Some ''localhost:8080''\<rparr>)) ?r]"
    by (simp add: backupFire_def sample_startup sendInitializationPing_def Let_def
        isCompleteRuntimeEnv_def truthy_def)
  then show ?thesis by (simp add: p)
qed

text \<open>
  C8, amended. When the start-up mounts the application, exactly one URL is fetched:
  \<open>https://\<close>, then the host, then the path \<open>/ping\<close>, then a query of exactly
  three parameters, in this order: \<open>token\<close> with the controller token,
  \<open>projectId\<close> with the project id, and \<open>agentURL\<close> with
  \<open>https://us-central1-{projectId}.cloudfunctions.net/backupfire\<close>, each value
  percent-encoded (the region is always the default region and the function name is
  \<open>backupfire\<close> at this point). The host is the configured controller domain, or
  \<open>backupfire.dev\<close> when none or the empty one is configured; a domain that holds a
  colon and is not already in brackets is put in brackets.
\<close>

theorem ping_url_of_successful_startup:
  assumes "onRequest (exported (backupFire config penv)) = App app"
  shows "\<exists>envConfig pid host.
           config = Some envConfig
           \<and> projectId (getRuntimeEnv penv) = Some pid
           \<and> host = (case domain envConfig of
                       None \<Rightarrow> defaultControllerDomain
                     | Some d \<Rightarrow> if d = [] then defaultControllerDomain else d)
           \<and> fetched (backupFire config penv) =
               [''https://''
                  @ (if CHR '':'' \<in> set host \<and> \<not> isIpv6Hostname host
                     then ''['' @ host @ '']'' else host)
                  @ ''/ping?token='' @ qsEscape (token envConfig)
                  @ ''&projectId='' @ qsEscape pid
                  @ ''&agentURL=''
                  @ qsEscape (''https://us-central1-'' @ pid @ ''.cloudfunctions.net/backupfire'')]"
proof -
  obtain envConfig where c: "config = Some envConfig"
    using assms by (cases config) (auto simp: backupFire_def dummyHandler_def)
  define r where "r = getRuntimeEnv penv"
  have fn: "functionName r = Some ''backupfire''" and complete: "isCompleteRuntimeEnv r"
    using assms unfolding c r_def
    by (auto simp: backupFire_def dummyHandler_def Let_def split: if_splits)
  then obtain pid where pid: "projectId r = Some pid"
    by (cases "projectId r") (auto simp: isCompleteRuntimeEnv_def truthy_def)
  have reg: "region r = Some ''us-central1''"
    by (simp add: r_def getRuntimeEnv_def defaultRegion_def)
  have url: "agentURL r = ''https://us-central1-'' @ pid @ ''.cloudfunctions.net/backupfire''"
    using fn pid reg by (simp add: agentURL_def interpolate_def)
  have "fetched (backupFire config penv) = [pingURL (deriveOptions envConfig) r]"
    using fn complete unfolding c r_def
    by (simp add: backupFire_def sendInitializationPing_def Let_def)
  then show ?thesis
    using c pid url pingURL_eq [OF pid, of "deriveOptions envConfig"]
    by (simp add: r_def deriveOptions_def Let_def)
qed

text \<open>
  The property at a start-up with the default controller domain, at one with a
  configured domain, and at one whose domain is an address already in brackets.
\<close>

theorem ping_url_of_successful_startup_witness:
  "onRequest (exported (backupFire (Some (sampleConfig None)) (sampleEnv (Some ''my-project'') (Some ''backupfire''))))
     = App (createApp (getRuntimeEnv (sampleEnv (Some ''my-project'') (Some ''backupfire'')))
              (deriveOptions (sampleConfig None)))
   \<and> fetched (backupFire (Some (sampleConfig None)) (sampleEnv (Some ''my-project'') (Some ''backupfire'')))
     = [''https://backupfire.dev/ping?token=secret%20token&projectId=my-project&agentURL=https%3A%2F%2Fus-central1-my-project.cloudfunctions.net%2Fbackupfire'']
   \<and> fetched (backupFire (Some ((sampleConfig None)\<lparr>domain := Some ''controller.example.com''\<rparr>))
              (sampleEnv (Some ''my-project'') (Some ''backupfire'')))
     = [''https://controller.example.com/ping?token=secret%20token&projectId=my-project&agentURL=https%3A%2F%2Fus-central1-my-project.cloudfunctions.net%2Fbackupfire'']
   \<and> fetched (backupFire (Some ((sampleConfig None)\<lparr>domain := Some ''[::1]''\<rparr>))
              (sampleEnv (Some ''my-project'') (Some ''backupfire'')))
     = [''https://[::1]/ping?token=secret%20token&projectId=my-project&agentURL=https%3A%2F%2Fus-central1-my-project.cloudfunctions.net%2Fbackupfire'']"
proof -
  let ?e = "sampleEnv (Some ''my-project'') (Some ''backupfire'')"
  have h: "onRequest (exported (backupFire (Some c) ?e))
             = App (createApp (getRuntimeEnv ?e) (deriveOptions c))" for c
    by (simp add: backupFire_def sample_startup Let_def isCompleteRuntimeEnv_def truthy_def)
  from ping_url_of_successful_startup [OF h [of "sampleConfig None"]]
    ping_url_of_successful_startup [OF h [of "(sampleConfig None)\<lparr>domain := Some ''controller.example.com''\<rparr>"]]
    ping_url_of_successful_startup [OF h [of "(sampleConfig None)\<lparr>domain := Some ''[::1]''\<rparr>"]]
    h [of "sampleConfig None"]
  show ?thesis
    by (simp add: sample_startup sample_escapes sampleConfig_def defaultControllerDomain_def
        isIpv6Hostname_def)
qed

section \<open>Properties of the users backup\<close>

subsection \<open>The temporary path keeps the base name\<close>

lemma base_no_slash: "CHR ''/'' \<notin> set (base p)"
  by (auto simp: base_def dest: set_takeWhileD)

lemma split_plain: "sep \<notin> set b \<Longrightarrow> split sep b = [b]"
  by (induction b) auto

lemma split_append: "split sep (xs @ sep # ys) = split sep xs @ split sep ys"
proof (induction xs)
  case Nil
  show ?case by simp
next
  case (Cons c xs)
  obtain seg segs where s: "split sep xs = seg # segs"
    using split_not_Nil [of sep xs] by (cases "split sep xs") auto
  show ?case using Cons s by simp
qed

lemma normalizeSegments_append:
  "normalizeSegments a res (xs @ ys) = normalizeSegments a (normalizeSegments a res xs) ys"
  by (induction xs arbitrary: res) auto

lemma join_snoc: "join sep (rs @ [b]) = (if rs = [] then b else join sep rs @ sep @ b)"
  by (induction sep rs rule: join.induct) auto

lemma slashed_prefix:
  "concat (map (\<lambda>p. p @ ''/'') ps) = [] \<or> (\<exists>z. concat (map (\<lambda>p. p @ ''/'') ps) = z @ ''/'')"
  by (induction ps rule: rev_induct) auto

lemma resolve_last:
  assumes b: "b \<noteq> []" "CHR ''/'' \<notin> set b" "b \<noteq> ''.''" "b \<noteq> ''..''"
  shows "\<exists>pre. resolve wd (args @ [b]) = pre @ b \<and> (pre = [] \<or> last pre = CHR ''/'')"
proof -
  define t where "t = takeUntilAbsolute (rev args @ [wd])"
  define y where "y = concat (map (\<lambda>p. p @ ''/'') t)"
  have hb: "hd b \<noteq> CHR ''/''" using b(1,2) by (cases b) auto
  have parts: "takeUntilAbsolute (rev (wd # args @ [b])) = t @ [b]"
    using b(1) hb by (simp add: t_def)
  have tail: "split CHR ''/'' (b @ ''/'') = [b, []]"
    using split_append [of "CHR ''/''" b "[]"] split_plain [OF b(2)] by simp
  have "\<exists>s. split CHR ''/'' (y @ b @ ''/'') = s @ [b, []]"
  proof -
    from slashed_prefix [of t] consider "y = []" | z where "y = z @ ''/''"
      unfolding y_def by blast
    then show ?thesis
    proof cases
      case 1
      then show ?thesis using tail by simp
    next
      case 2
      then show ?thesis
        using split_append [of "CHR ''/''" z "b @ ''/''"] tail by simp
    qed
  qed
  then obtain s where s: "split CHR ''/'' (y @ b @ ''/'') = s @ [b, []]" ..
  have norm: "normalizeSegments a [] (s @ [b, []]) = normalizeSegments a [] s @ [b]" for a
    using b by (simp add: normalizeSegments_append)
  have joined: "join ''/'' (normalizeSegments a [] s @ [b]) \<noteq> []" for a
    using b(1) by (simp add: join_snoc)
  have shape: "\<exists>pre. join ''/'' (normalizeSegments a [] s @ [b]) = pre @ b
                 \<and> (pre = [] \<or> last pre = CHR ''/'')" for a
    by (simp add: join_snoc)
  show ?thesis
  proof (cases "hd (hd (t @ [b])) = CHR ''/''")
    case True
    obtain pre where pre: "join ''/'' (normalizeSegments False [] s @ [b]) = pre @ b"
      "pre = [] \<or> last pre = CHR ''/''"
      using shape [of False] by blast
    have "resolve wd (args @ [b]) = (''/'' @ pre) @ b"
      unfolding resolve_def parts Let_def
      using True s norm [of False] pre(1) by (simp add: y_def)
    moreover have "last (''/'' @ pre) = CHR ''/''"
      using pre(2) by auto
    ultimately show ?thesis by blast
  next
    case False
    obtain pre where pre: "join ''/'' (normalizeSegments True [] s @ [b]) = pre @ b"
      "pre = [] \<or> last pre = CHR ''/''"
      using shape [of True] by blast
    have "resolve wd (args @ [b]) = pre @ b"
      unfolding resolve_def parts Let_def
      using False s norm [of True] pre(1) joined [of True] by (simp add: y_def)
    then show ?thesis using pre(2) by blast
  qed
qed

lemma base_of_last:
  assumes "b \<noteq> []" "CHR ''/'' \<notin> set b" "pre = [] \<or> last pre = CHR ''/''"
  shows "base (pre @ b) = b"
proof -
  have 1: "dropWhile (\<lambda>c. c = CHR ''/'') (rev b @ rev pre) = rev b @ rev pre"
    using assms(1,2) by (cases b rule: rev_cases) auto
  have 2: "takeWhile (\<lambda>c. c \<noteq> CHR ''/'') (rev pre) = []"
    using assms(3) by (cases pre rule: rev_cases) auto
  have "takeWhile (\<lambda>c. c \<noteq> CHR ''/'') (rev b @ rev pre) = rev b"
    using assms(2) 2 by (subst takeWhile_append2) auto
  then show ?thesis using 1 by (simp add: base_def)
qed

lemma base_tmpPath:
  assumes "base p \<noteq> []" "base p \<noteq> ''.''" "base p \<noteq> ''..''"
  shows "base (tmpPath plat p) = base p"
proof -
  obtain pre where "resolve (cwd plat) ([tmpdir plat] @ [base p]) = pre @ base p"
    and "pre = [] \<or> last pre = CHR ''/''"
    using resolve_last [OF assms(1) base_no_slash assms(2,3)] by blast
  then show ?thesis
    using base_of_last [OF assms(1) base_no_slash] by (simp add: tmpPath_def)
qed

lemma tmpPath_sample:
  "tmpPath (samplePlatform text parsed uploaded) ''users/2024.json'' = ''/tmp/2024.json''"
  by (simp add: tmpPath_def samplePlatform_def resolve_def base_def)

text \<open>
  C6, as stated: distinct destination paths get distinct temporary paths. This fails:
  \<open>tmpPath\<close> keeps only the base name of the destination, so two destinations in
  different folders with the same file name share one temporary file.
\<close>

theorem tmpPath_collision_counterexample:
  "''users/2024.json'' \<noteq> ''archive/2024.json''
   \<and> tmpPath (samplePlatform [] None (Inl [])) ''users/2024.json''
       = tmpPath (samplePlatform [] None (Inl [])) ''archive/2024.json''"
  by (simp add: tmpPath_def base_def)

text \<open>
  C6, amended. The temporary path depends on the base name of the destination path
  only: destinations with the same base name get the same temporary path, and
  destinations whose base names differ (and are none of the empty name, \<open>.\<close> and
  \<open>..\<close>) get different temporary paths.
\<close>

theorem tmpPath_depends_on_base_only:
  "(base p = base q \<longrightarrow> tmpPath plat p = tmpPath plat q)
   \<and> (base p \<noteq> base q \<and> base p \<notin> {[], ''.'', ''..''} \<and> base q \<notin> {[], ''.'', ''..''} \<longrightarrow>
        tmpPath plat p \<noteq> tmpPath plat q)"
proof (intro conjI impI)
  assume "base p = base q"
  then show "tmpPath plat p = tmpPath plat q" by (simp add: tmpPath_def)
next
  assume a: "base p \<noteq> base q \<and> base p \<notin> {[], ''.'', ''..''} \<and> base q \<notin> {[], ''.'', ''..''}"
  then have "base (tmpPath plat p) = base p" and "base (tmpPath plat q) = base q"
    by (auto intro: base_tmpPath)
  then show "tmpPath plat p \<noteq> tmpPath plat q" using a by auto
qed

text \<open>
  The property at two destinations with the same file name, and at two with different
  file names.
\<close>

theorem tmpPath_depends_on_base_only_witness:
  "base ''users/2024.json'' = base ''backups/2024.json''
   \<and> tmpPath (samplePlatform [] None (Inl [])) ''users/2024.json''
       = tmpPath (samplePlatform [] None (Inl [])) ''backups/2024.json''
   \<and> base ''users/2024.json'' = ''2024.json'' \<and> base ''users/2025.json'' = ''2025.json''
   \<and> tmpPath (samplePlatform [] None (Inl [])) ''users/2024.json''
       \<noteq> tmpPath (samplePlatform [] None (Inl [])) ''users/2025.json''"
proof -
  have b: "base ''users/2024.json'' = ''2024.json''" "base ''users/2025.json'' = ''2025.json''"
    "base ''backups/2024.json'' = ''2024.json''"
    by (simp_all add: base_def)
  show ?thesis
    using tmpPath_depends_on_base_only [of "''users/2024.json''" "''backups/2024.json''" "samplePlatform [] None (Inl [])"]
      tmpPath_depends_on_base_only [of "''users/2024.json''" "''users/2025.json''" "samplePlatform [] None (Inl [])"]
    by (simp add: b)
qed

subsection \<open>The runs of \<open>backupUsers\<close>\<close>

text \<open>
  The four ways a run goes once the bucket is opened: the export rejects; the count is
  \<open>undefined\<close>; the upload rejects; everything succeeds. Only the second and the
  fourth unlink the temporary file.
\<close>

lemma backupUsers_export_rejects:
  assumes "bucket plat (storageId options) = Inr b"
    and "auth_export plat (tmpPath plat (path options)) project (files w) = (Some e, fs)"
  shows "backupUsers plat project options w =
           (Inl (ExportError e), w\<lparr>files := fs, calls := calls w @ [Export (tmpPath plat (path options)) project]\<rparr>)"
  using assms by (simp add: backupUsers_def Let_def called_def)

lemma backupUsers_undefined_count:
  assumes "bucket plat (storageId options) = Inr b"
    and "auth_export plat (tmpPath plat (path options)) project (files w) = (None, fs)"
    and "fs (tmpPath plat (path options)) = Some text"
    and "usersCount plat fs (tmpPath plat (path options)) = None"
  shows "backupUsers plat project options w =
           (Inr (Failed ''Failed to parse the backup file''),
            w\<lparr>files := fs(tmpPath plat (path options) := None),
              calls := calls w @ [Export (tmpPath plat (path options)) project,
                 ReadFile (tmpPath plat (path options)), Unlink (tmpPath plat (path options))]\<rparr>)"
  using assms by (simp add: backupUsers_def Let_def called_def unlink_def)

lemma backupUsers_upload_rejects:
  assumes "bucket plat (storageId options) = Inr b"
    and "auth_export plat (tmpPath plat (path options)) project (files w) = (None, fs)"
    and "fs (tmpPath plat (path options)) = Some text"
    and "usersCount plat fs (tmpPath plat (path options)) = Some n"
    and "upload plat b (path options) text = Inl e"
  shows "backupUsers plat project options w =
           (Inl (UploadError e),
            w\<lparr>files := fs,
              calls := calls w @ [Export (tmpPath plat (path options)) project,
                 ReadFile (tmpPath plat (path options)),
                 Upload b (tmpPath plat (path options)) (path options)]\<rparr>)"
  using assms by (simp add: backupUsers_def Let_def called_def unlink_def)

lemma backupUsers_completes:
  assumes "bucket plat (storageId options) = Inr b"
    and "auth_export plat (tmpPath plat (path options)) project (files w) = (None, fs)"
    and "fs (tmpPath plat (path options)) = Some text"
    and "usersCount plat fs (tmpPath plat (path options)) = Some n"
    and "upload plat b (path options) text = Inr s"
  shows "backupUsers plat project options w =
           (Inr (Completed n s),
            w\<lparr>files := fs(tmpPath plat (path options) := None),
              calls := calls w @ [Export (tmpPath plat (path options)) project,
                 ReadFile (tmpPath plat (path options)),
                 Upload b (tmpPath plat (path options)) (path options),
                 Unlink (tmpPath plat (path options))]\<rparr>)"
  using assms by (simp add: backupUsers_def Let_def called_def unlink_def)

lemma usersCount_undefined:
  assumes "fs p = Some text"
    and "JSON_parse plat text = None \<or> (\<exists>v. JSON_parse plat text = Some v \<and> noUsersLength v)"
  shows "usersCount plat fs p = None"
proof -
  have "noUsersLength v \<Longrightarrow>
          (case usersOf v of Inl _ \<Rightarrow> None
           | Inr users \<Rightarrow> (case lengthOf users of Inl _ \<Rightarrow> None | Inr n \<Rightarrow> n)) = None" for v
    by (cases v) (auto simp: usersOf_def lengthOf_def split: option.splits json.splits)
  then show ?thesis using assms by (auto simp: usersCount_def)
qed

lemma usersCount_defined:
  assumes "fs p = Some text" and "JSON_parse plat text = Some v" and "\<not> noUsersLength v"
  shows "usersCount plat fs p \<noteq> None"
  using assms
  by (cases v) (auto simp: usersCount_def usersOf_def lengthOf_def split: option.splits json.splits)

lemma usersCount_array:
  assumes "fs p = Some text" and "JSON_parse plat text = Some (JObj kvs)"
    and "map_of kvs ''users'' = Some (JArr users)"
  shows "usersCount plat fs p = Some (JNum (real (length users)))"
  using assms by (simp add: usersCount_def usersOf_def lengthOf_def)

lemma allowlist_ignored:
  "backupUsersMiddleware plat allowed project body w = backupUsersMiddleware plat None project body w"
  by (simp add: backupUsersMiddleware_def)

subsection \<open>Runs on the sample platform\<close>

lemma sample_fields:
  "bucket (samplePlatform text parsed uploaded) name =
     (if name = [] then Inl ''Bucket name not specified'' else Inr name)"
  "auth_export (samplePlatform text parsed uploaded) p project fs = (None, fs(p \<mapsto> text))"
  "JSON_parse (samplePlatform text parsed uploaded) t = (if t = text then parsed else None)"
  "upload (samplePlatform text parsed uploaded) b destination content = uploaded"
  by (simp_all add: samplePlatform_def)

lemma failingExport_fields:
  "bucket (failingExport reason) name =
     (if name = [] then Inl ''Bucket name not specified'' else Inr name)"
  "auth_export (failingExport reason) p project fs = (Some reason, fs)"
  by (simp_all add: failingExport_def samplePlatform_def)



lemma sampleRequest_fields:
  "storageId (sampleRequest b) = b" "path (sampleRequest b) = ''users/2024.json''"
  by (simp_all add: sampleRequest_def)

lemma sample_export:
  "auth_export (samplePlatform text parsed uploaded)
     (tmpPath (samplePlatform text parsed uploaded) (path (sampleRequest b))) project (files emptyWorld)
   = (None, [''/tmp/2024.json'' \<mapsto> text])"
  by (simp add: sample_fields sampleRequest_fields tmpPath_sample emptyWorld_def)

lemma sample_usersCount:
  "usersCount (samplePlatform text parsed uploaded) [''/tmp/2024.json'' \<mapsto> text] ''/tmp/2024.json''
   = (case parsed of
        None \<Rightarrow> None
      | Some v \<Rightarrow> (case usersOf v of
                     Inl _ \<Rightarrow> None
                   | Inr users \<Rightarrow> (case lengthOf users of Inl _ \<Rightarrow> None | Inr n \<Rightarrow> n)))"
  by (simp add: usersCount_def sample_fields)

lemma twoUsers_count:
  "usersCount (samplePlatform twoUsersText (Some twoUsers) uploaded)
     [''/tmp/2024.json'' \<mapsto> twoUsersText] ''/tmp/2024.json'' = Some (JNum 2)"
  by (simp add: sample_usersCount twoUsers_def usersOf_def lengthOf_def)

lemma healthy_run:
  "backupUsers healthyPlatform project (sampleRequest (c # cs)) emptyWorld =
     (Inr (Completed (JNum 2) ''1024''),
      \<lparr>files = Map.empty,
        calls = [Export ''/tmp/2024.json'' project, ReadFile ''/tmp/2024.json'',
                 Upload (c # cs) ''/tmp/2024.json'' ''users/2024.json'', Unlink ''/tmp/2024.json'']\<rparr>)"
  using backupUsers_completes [of healthyPlatform "sampleRequest (c # cs)" "c # cs" project emptyWorld
      "[''/tmp/2024.json'' \<mapsto> twoUsersText]" twoUsersText "JNum 2" "''1024''"]
    sample_export [of twoUsersText "Some twoUsers" "Inr ''1024''" "c # cs" project]
    twoUsers_count [of "Inr ''1024''"]
  by (simp add: healthyPlatform_def tmpPath_sample sample_fields sampleRequest_fields emptyWorld_def)

lemma failed_upload_run:
  "backupUsers (samplePlatform twoUsersText (Some twoUsers) (Inl reason)) project
       (sampleRequest (c # cs)) emptyWorld =
     (Inl (UploadError reason),
      \<lparr>files = [''/tmp/2024.json'' \<mapsto> twoUsersText],
        calls = [Export ''/tmp/2024.json'' project, ReadFile ''/tmp/2024.json'',
                 Upload (c # cs) ''/tmp/2024.json'' ''users/2024.json'']\<rparr>)"
  using backupUsers_upload_rejects [of "samplePlatform twoUsersText (Some twoUsers) (Inl reason)"
      "sampleRequest (c # cs)" "c # cs" project emptyWorld
      "[''/tmp/2024.json'' \<mapsto> twoUsersText]" twoUsersText "JNum 2" reason]
    sample_export [of twoUsersText "Some twoUsers" "Inl reason" "c # cs" project]
    twoUsers_count [of "Inl reason"]
  by (simp add: tmpPath_sample sample_fields sampleRequest_fields emptyWorld_def)

subsection \<open>The allow-list\<close>

text \<open>
  C1. The claim is that a request whose \<open>storageId\<close> is outside a non-empty allow-list
  is rejected before any side effect. The middleware never looks at the allow-list: with
  the allow-list \<open>[b1]\<close> and a request for the bucket \<open>b2\<close>, the export, the read,
  the upload into \<open>b2\<close> and the unlink all happen, and the response is
  \<open>completed\<close>.
\<close>

theorem allowlist_not_enforced:
  "''b2'' \<notin> set [''b1'']
   \<and> backupUsersMiddleware healthyPlatform (Some [''b1'']) ''my-project'' (sampleRequest ''b2'') emptyWorld
       = (OperationResponse (Completed (JNum 2) ''1024''),
          \<lparr>files = Map.empty,
            calls = [Export ''/tmp/2024.json'' ''my-project'', ReadFile ''/tmp/2024.json'',
                     Upload ''b2'' ''/tmp/2024.json'' ''users/2024.json'',
                     Unlink ''/tmp/2024.json'']\<rparr>)"
  by (simp add: backupUsersMiddleware_def healthy_run)

subsection \<open>The temporary file\<close>

text \<open>
  C2. The claim is that the temporary file is deleted exactly once on every outcome,
  an upload failure included. When the upload rejects, \<open>backupUsers\<close> rejects at once:
  \<open>unlink\<close> is never called and the temporary file is still there.
\<close>

theorem upload_failure_leaves_temporary_file:
  "files (snd (backupUsers (samplePlatform twoUsersText (Some twoUsers) (Inl ''quota exceeded''))
                 ''my-project'' (sampleRequest ''b1'') emptyWorld)) ''/tmp/2024.json''
     = Some twoUsersText
   \<and> calls (snd (backupUsers (samplePlatform twoUsersText (Some twoUsers) (Inl ''quota exceeded''))
                 ''my-project'' (sampleRequest ''b1'') emptyWorld))
     = [Export ''/tmp/2024.json'' ''my-project'', ReadFile ''/tmp/2024.json'',
        Upload ''b1'' ''/tmp/2024.json'' ''users/2024.json'']"
  by (simp add: failed_upload_run)

subsection \<open>Failures inside the pipeline\<close>

text \<open>
  C3, as stated: every failure inside the pipeline becomes a terminal value with state
  \<open>failed\<close>. This fails for an upload error: \<open>backupUsers\<close> rejects with the
  error, and so does the callback of the middleware; no state is produced.
\<close>

theorem upload_failure_not_captured_counterexample:
  "fst (backupUsers (samplePlatform twoUsersText (Some twoUsers) (Inl ''quota exceeded''))
          ''my-project'' (sampleRequest ''b1'') emptyWorld)
     = Inl (UploadError ''quota exceeded'')
   \<and> fst (backupUsersMiddleware (samplePlatform twoUsersText (Some twoUsers) (Inl ''quota exceeded''))
          None ''my-project'' (sampleRequest ''b1'') emptyWorld)
     = Rejection (UploadError ''quota exceeded'')"
  by (simp add: backupUsersMiddleware_def failed_upload_run)

text \<open>
  C3, amended. Of the failures inside the pipeline only the parse failure is captured
  and becomes \<open>{state: failed, data: {reason: Failed to parse the backup file}}\<close>;
  an export error and an upload error are not captured: \<open>backupUsers\<close> rejects with
  that error.
\<close>

theorem pipeline_failures:
  assumes "bucket plat (storageId options) = Inr b"
  shows "(\<forall>e fs. auth_export plat (tmpPath plat (path options)) project (files w) = (Some e, fs) \<longrightarrow>
            fst (backupUsers plat project options w) = Inl (ExportError e))
         \<and> (\<forall>fs contents. auth_export plat (tmpPath plat (path options)) project (files w) = (None, fs)
              \<and> fs (tmpPath plat (path options)) = Some contents
              \<and> usersCount plat fs (tmpPath plat (path options)) = None \<longrightarrow>
            fst (backupUsers plat project options w) = Inr (Failed ''Failed to parse the backup file''))
         \<and> (\<forall>fs contents n e. auth_export plat (tmpPath plat (path options)) project (files w) = (None, fs)
              \<and> fs (tmpPath plat (path options)) = Some contents
              \<and> usersCount plat fs (tmpPath plat (path options)) = Some n
              \<and> upload plat b (path options) contents = Inl e \<longrightarrow>
            fst (backupUsers plat project options w) = Inl (UploadError e))"
proof (intro conjI allI impI)
  fix e fs
  assume "auth_export plat (tmpPath plat (path options)) project (files w) = (Some e, fs)"
  from backupUsers_export_rejects [OF assms this]
  show "fst (backupUsers plat project options w) = Inl (ExportError e)" by simp
next
  fix fs contents
  assume "auth_export plat (tmpPath plat (path options)) project (files w) = (None, fs)
          \<and> fs (tmpPath plat (path options)) = Some contents
          \<and> usersCount plat fs (tmpPath plat (path options)) = None"
  then show "fst (backupUsers plat project options w) = Inr (Failed ''Failed to parse the backup file'')"
    using backupUsers_undefined_count [OF assms, of project w fs contents] by simp
next
  fix fs contents n e
  assume "auth_export plat (tmpPath plat (path options)) project (files w) = (None, fs)
          \<and> fs (tmpPath plat (path options)) = Some contents
          \<and> usersCount plat fs (tmpPath plat (path options)) = Some n
          \<and> upload plat b (path options) contents = Inl e"
  then show "fst (backupUsers plat project options w) = Inl (UploadError e)"
    using backupUsers_upload_rejects [OF assms, of project w fs contents n e] by simp
qed

text \<open>
  The property at an export that rejects, at a truncated file, and at an upload that
  rejects.
\<close>

theorem pipeline_failures_witness:
  "fst (backupUsers (failingExport ''permission denied'') ''my-project'' (sampleRequest ''b1'') emptyWorld)
     = Inl (ExportError ''permission denied'')
   \<and> fst (backupUsers (samplePlatform ''{\"users\":[{},'' None (Inr ''1024'')) ''my-project''
            (sampleRequest ''b1'') emptyWorld)
     = Inr (Failed ''Failed to parse the backup file'')
   \<and> fst (backupUsers (samplePlatform twoUsersText (Some twoUsers) (Inl ''quota exceeded'')) ''my-project''
            (sampleRequest ''b1'') emptyWorld)
     = Inl (UploadError ''quota exceeded'')"
proof -
  have b1: "bucket (failingExport ''permission denied'') (storageId (sampleRequest ''b1'')) = Inr ''b1''"
    by (simp add: failingExport_fields sampleRequest_fields)
  have b2: "bucket (samplePlatform contents parsed uploaded) (storageId (sampleRequest ''b1'')) = Inr ''b1''"
    for contents parsed uploaded
    by (simp add: sample_fields sampleRequest_fields)
  have u: "usersCount (samplePlatform ''{\"users\":[{},'' None (Inr ''1024''))
             [''/tmp/2024.json'' \<mapsto> ''{\"users\":[{},''] ''/tmp/2024.json'' = None"
    by (simp add: sample_usersCount)
  show ?thesis
    using pipeline_failures [OF b1, of "''my-project''" emptyWorld]
      pipeline_failures [OF b2, of "''{\"users\":[{},''" None "Inr ''1024''" "''my-project''" emptyWorld]
      pipeline_failures [OF b2, of twoUsersText "Some twoUsers" "Inl ''quota exceeded''" "''my-project''" emptyWorld]
      u twoUsers_count [of "Inl ''quota exceeded''"]
    by (simp add: failingExport_fields sample_fields sampleRequest_fields tmpPath_sample emptyWorld_def)
qed

subsection \<open>An artifact that cannot be parsed\<close>

text \<open>
  C4, as stated: a file whose parsed value has no users array gives the state
  \<open>failed\<close> and is not uploaded. This fails when \<open>users\<close> is a string: its
  \<open>length\<close> is taken as the number of users, the file is uploaded and the state is
  \<open>completed\<close>.
\<close>

theorem users_string_is_counted_counterexample:
  "\<not> hasUsersArray (JObj [(''users'', JStr ''abc'')])
   \<and> backupUsers (samplePlatform ''{\"users\":\"abc\"}'' (Some (JObj [(''users'', JStr ''abc'')])) (Inr ''15''))
          ''my-project'' (sampleRequest ''b1'') emptyWorld
     = (Inr (Completed (JNum 3) ''15''),
        \<lparr>files = Map.empty,
          calls = [Export ''/tmp/2024.json'' ''my-project'', ReadFile ''/tmp/2024.json'',
                   Upload ''b1'' ''/tmp/2024.json'' ''users/2024.json'', Unlink ''/tmp/2024.json'']\<rparr>)"
proof -
  let ?P = "samplePlatform ''{\"users\":\"abc\"}'' (Some (JObj [(''users'', JStr ''abc'')])) (Inr ''15'')"
  have "usersCount ?P [''/tmp/2024.json'' \<mapsto> ''{\"users\":\"abc\"}''] ''/tmp/2024.json'' = Some (JNum 3)"
    by (simp add: sample_usersCount usersOf_def lengthOf_def)
  then show ?thesis
    using backupUsers_completes [of ?P "sampleRequest ''b1''" "''b1''" "''my-project''" emptyWorld
        "[''/tmp/2024.json'' \<mapsto> ''{\"users\":\"abc\"}'']" "''{\"users\":\"abc\"}''" "JNum 3" "''15''"]
      sample_export [of "''{\"users\":\"abc\"}''" "Some (JObj [(''users'', JStr ''abc'')])" "Inr ''15''" "''b1''" "''my-project''"]
    by (simp add: tmpPath_sample sample_fields sampleRequest_fields emptyWorld_def)
qed

text \<open>
  C4, amended. When the exported file exists and either \<open>JSON.parse\<close> throws or the
  parsed value has no \<open>users.length\<close> (it is not an object, or its \<open>users\<close> is
  missing, \<open>null\<close>, a boolean, a number or an object without \<open>length\<close>),
  \<open>backupUsers\<close> resolves with the state \<open>failed\<close> and the reason
  \<open>Failed to parse the backup file\<close>, makes no upload, and has removed the temporary
  file with one \<open>unlink\<close>.
\<close>

theorem unparsable_artifact_fails:
  assumes "bucket plat (storageId options) = Inr b"
    and "auth_export plat (tmpPath plat (path options)) project (files w) = (None, fs)"
    and "fs (tmpPath plat (path options)) = Some text"
    and "JSON_parse plat text = None \<or> (\<exists>v. JSON_parse plat text = Some v \<and> noUsersLength v)"
  shows "backupUsers plat project options w =
           (Inr (Failed ''Failed to parse the backup file''),
            w\<lparr>files := fs(tmpPath plat (path options) := None),
              calls := calls w @ [Export (tmpPath plat (path options)) project,
                 ReadFile (tmpPath plat (path options)), Unlink (tmpPath plat (path options))]\<rparr>)"
  using assms(4) backupUsers_undefined_count [OF assms(1,2,3)]
    usersCount_undefined [of fs "tmpPath plat (path options)" "text" plat, OF assms(3)]
  by simp

text \<open>The property at a truncated file and at a file with no \<open>users\<close> key.\<close>

theorem unparsable_artifact_fails_witness:
  "backupUsers (samplePlatform ''{\"users\":[{},'' None (Inr ''1024'')) ''my-project''
       (sampleRequest ''b1'') emptyWorld
     = (Inr (Failed ''Failed to parse the backup file''),
        \<lparr>files = Map.empty,
          calls = [Export ''/tmp/2024.json'' ''my-project'', ReadFile ''/tmp/2024.json'',
                   Unlink ''/tmp/2024.json'']\<rparr>)
   \<and> noUsersLength (JObj [(''accounts'', JArr [])])
   \<and> backupUsers (samplePlatform ''{\"accounts\":[]}'' (Some (JObj [(''accounts'', JArr [])])) (Inr ''1024''))
       ''my-project'' (sampleRequest ''b1'') emptyWorld
     = (Inr (Failed ''Failed to parse the backup file''),
        \<lparr>files = Map.empty,
          calls = [Export ''/tmp/2024.json'' ''my-project'', ReadFile ''/tmp/2024.json'',
                   Unlink ''/tmp/2024.json'']\<rparr>)"
proof -
  have b: "bucket (samplePlatform contents parsed uploaded) (storageId (sampleRequest ''b1'')) = Inr ''b1''"
    for contents parsed uploaded
    by (simp add: sample_fields sampleRequest_fields)
  have f: "[''/tmp/2024.json'' \<mapsto> contents] (tmpPath (samplePlatform contents parsed uploaded)
             (path (sampleRequest ''b1''))) = Some contents" for contents parsed uploaded
    by (simp add: sampleRequest_fields tmpPath_sample)
  have p1: "JSON_parse (samplePlatform ''{\"users\":[{},'' None (Inr ''1024'')) ''{\"users\":[{},'' = None
      \<or> (\<exists>v. JSON_parse (samplePlatform ''{\"users\":[{},'' None (Inr ''1024'')) ''{\"users\":[{},'' = Some v
            \<and> noUsersLength v)"
    by (simp add: sample_fields)
  have n: "noUsersLength (JObj [(''accounts'', JArr [])])" by simp
  then have p2: "JSON_parse (samplePlatform ''{\"accounts\":[]}'' (Some (JObj [(''accounts'', JArr [])])) (Inr ''1024''))
         ''{\"accounts\":[]}'' = None
      \<or> (\<exists>v. JSON_parse (samplePlatform ''{\"accounts\":[]}'' (Some (JObj [(''accounts'', JArr [])])) (Inr ''1024''))
         ''{\"accounts\":[]}'' = Some v \<and> noUsersLength v)"
    by (simp add: sample_fields)
  show ?thesis
    using unparsable_artifact_fails [OF b sample_export f p1]
      unparsable_artifact_fails [OF b sample_export f p2] n
    by (simp add: sampleRequest_fields tmpPath_sample emptyWorld_def fun_eq_iff)
qed

subsection \<open>A well-formed artifact\<close>

text \<open>
  C5. When the export writes a file whose parsed value is an object with an array of
  N records under \<open>users\<close> and the upload resolves with the size S,
  \<open>backupUsers\<close> resolves with \<open>{state: completed, data: {usersCount: N, size: S}}\<close>,
  after one upload of the temporary file to the destination path and one unlink.
\<close>

theorem users_count_of_wellformed_artifact:
  assumes "bucket plat (storageId options) = Inr b"
    and "auth_export plat (tmpPath plat (path options)) project (files w) = (None, fs)"
    and "fs (tmpPath plat (path options)) = Some text"
    and "JSON_parse plat text = Some (JObj kvs)"
    and "map_of kvs ''users'' = Some (JArr users)"
    and "upload plat b (path options) text = Inr s"
  shows "backupUsers plat project options w =
           (Inr (Completed (JNum (real (length users))) s),
            w\<lparr>files := fs(tmpPath plat (path options) := None),
              calls := calls w @ [Export (tmpPath plat (path options)) project,
                 ReadFile (tmpPath plat (path options)),
                 Upload b (tmpPath plat (path options)) (path options),
                 Unlink (tmpPath plat (path options))]\<rparr>)"
  using backupUsers_completes [OF assms(1,2,3) _ assms(6)]
    usersCount_array [of fs "tmpPath plat (path options)" "text" plat kvs users, OF assms(3,4,5)]
  by simp

text \<open>The property at an export of two records.\<close>

theorem users_count_of_wellformed_artifact_witness:
  "length [JObj [], JObj []] = 2
   \<and> backupUsers healthyPlatform ''my-project'' (sampleRequest ''b1'') emptyWorld
     = (Inr (Completed (JNum 2) ''1024''),
        \<lparr>files = Map.empty,
          calls = [Export ''/tmp/2024.json'' ''my-project'', ReadFile ''/tmp/2024.json'',
                   Upload ''b1'' ''/tmp/2024.json'' ''users/2024.json'', Unlink ''/tmp/2024.json'']\<rparr>)"
proof -
  have b: "bucket healthyPlatform (storageId (sampleRequest ''b1'')) = Inr ''b1''"
    by (simp add: healthyPlatform_def sample_fields sampleRequest_fields)
  have e: "auth_export healthyPlatform (tmpPath healthyPlatform (path (sampleRequest ''b1'')))
             ''my-project'' (files emptyWorld) = (None, [''/tmp/2024.json'' \<mapsto> twoUsersText])"
    unfolding healthyPlatform_def by (rule sample_export)
  have f: "[''/tmp/2024.json'' \<mapsto> twoUsersText] (tmpPath healthyPlatform (path (sampleRequest ''b1'')))
             = Some twoUsersText"
    by (simp add: healthyPlatform_def sampleRequest_fields tmpPath_sample)
  have p: "JSON_parse healthyPlatform twoUsersText = Some (JObj [(''users'', JArr [JObj [], JObj []])])"
    by (simp add: healthyPlatform_def sample_fields twoUsers_def)
  have m: "map_of [(''users'', JArr [JObj [], JObj []])] ''users'' = Some (JArr [JObj [], JObj []])"
    by simp
  have u: "upload healthyPlatform ''b1'' (path (sampleRequest ''b1'')) twoUsersText = Inr ''1024''"
    by (simp add: healthyPlatform_def sample_fields)
  show ?thesis
    using users_count_of_wellformed_artifact [OF b e f p m u]
    by (simp add: healthyPlatform_def sampleRequest_fields tmpPath_sample emptyWorld_def fun_eq_iff)
qed

end
